theory Spec2Isabelle
  imports Main "HOL-Library.AList"
begin

section \<open>Python values and exceptions\<close>

text \<open>
  The scripts are Python. An exception that leaves a function is a value \<open>Inl e\<close> of
  the result, a normal return is \<open>Inr v\<close>. \<open>SystemExit n\<close> is what \<open>sys.exit(n)\<close>
  raises.
\<close>

datatype py_error =
    IndexError
  | TypeError
  | AttributeError
  | ValueError
  | SystemExit nat

text \<open>
  The \<open>.value\<close> of a spreadsheet cell as the scripts use it: \<open>None\<close> for an empty cell,
  a \<open>str\<close> otherwise. Python strings are modelled as \<open>string\<close>; every character the
  scripts inspect (digits, \<open>-\<close>, \<open>|\<close>, \<open><\<close>, \<open>>\<close>) is ASCII.
\<close>

datatype pyval = PyNone | PyStr string

definition truthy :: "pyval \<Rightarrow> bool" where
  "truthy v = (case v of PyNone \<Rightarrow> False | PyStr s \<Rightarrow> s \<noteq> [])"

definition py_str :: "pyval \<Rightarrow> string" where
  "py_str v = (case v of PyNone \<Rightarrow> ''None'' | PyStr s \<Rightarrow> s)"

definition bindE :: "py_error + 'a \<Rightarrow> ('a \<Rightarrow> py_error + 'b) \<Rightarrow> py_error + 'b" where
  "bindE m f = (case m of Inl e \<Rightarrow> Inl e | Inr v \<Rightarrow> f v)"

text \<open>\<open>xs[i]\<close> for a Python list: a negative index counts from the end.\<close>

definition py_index :: "'a list \<Rightarrow> int \<Rightarrow> py_error + 'a" where
  "py_index xs i =
     (if 0 \<le> i \<and> i < int (length xs) then Inr (xs ! nat i)
      else if i < 0 \<and> - int (length xs) \<le> i then Inr (xs ! nat (int (length xs) + i))
      else Inl IndexError)"

section \<open>core/schedule.py: formatting helpers\<close>

definition CONFERENCE_YEAR :: nat where
  "CONFERENCE_YEAR = 2021"

definition CONFERENCE_NAME :: string where
  "CONFERENCE_NAME = ''VIS Testing 2021''"

text \<open>\<open>conf_tz = timezone(-timedelta(hours=5))\<close>: the offset from UTC, in minutes.\<close>

definition conf_tz :: int where
  "conf_tz = - (5 * 60)"

subsection \<open>datetime\<close>

record datetime =
  dt_year :: nat
  dt_month :: nat
  dt_day :: nat
  dt_hour :: nat
  dt_minute :: nat
  dt_tzinfo :: int

definition is_leap :: "nat \<Rightarrow> bool" where
  "is_leap y = (y mod 4 = 0 \<and> (y mod 100 \<noteq> 0 \<or> y mod 400 = 0))"

definition days_in_month :: "nat \<Rightarrow> nat \<Rightarrow> nat" where
  "days_in_month y m =
     (if m = 2 then (if is_leap y then 29 else 28)
      else if m = 4 \<or> m = 6 \<or> m = 9 \<or> m = 11 then 30
      else 31)"

text \<open>The constructor \<open>datetime(year, month, day, hour=, minute=, tzinfo=)\<close> raises
  \<open>ValueError\<close> on a field out of range.\<close>

definition mk_datetime :: "nat \<Rightarrow> nat \<Rightarrow> nat \<Rightarrow> nat \<Rightarrow> nat \<Rightarrow> int \<Rightarrow> py_error + datetime" where
  "mk_datetime y mo d h mi tz =
     (if 1 \<le> y \<and> y \<le> 9999 \<and> 1 \<le> mo \<and> mo \<le> 12 \<and> 1 \<le> d \<and> d \<le> days_in_month y mo
         \<and> h \<le> 23 \<and> mi \<le> 59
      then Inr \<lparr>dt_year = y, dt_month = mo, dt_day = d, dt_hour = h, dt_minute = mi,
                dt_tzinfo = tz\<rparr>
      else Inl ValueError)"

subsection \<open>Digits\<close>

definition is_digit :: "char \<Rightarrow> bool" where
  "is_digit c = (c \<in> set ''0123456789'')"

text \<open>The value of a digit is its position in \<open>0123456789\<close>.\<close>

definition digit_val :: "char \<Rightarrow> nat" where
  "digit_val c = length (takeWhile (\<lambda>d. d \<noteq> c) ''0123456789'')"

definition digit_char :: "nat \<Rightarrow> char" where
  "digit_char n = ''0123456789'' ! (n mod 10)"

text \<open>\<open>int(s)\<close> on a string of decimal digits.\<close>

definition int_of_digits :: "string \<Rightarrow> nat" where
  "int_of_digits s = foldl (\<lambda>n c. 10 * n + digit_val c) 0 s"

text \<open>\<open>strftime\<close>'s \<open>%H\<close> and \<open>%M\<close>: two digits, zero padded.\<close>

definition two_digits :: "nat \<Rightarrow> string" where
  "two_digits n = [digit_char (n div 10), digit_char n]"

subsection \<open>Time slots\<close>

text \<open>
  \<open>match_timeslot = re.compile("(\d\d)(\d\d)-(\d\d)(\d\d)")\<close>, used through
  \<open>.match\<close>: anchored at the start of the string only, so anything may follow the
  nine characters. The result is the four groups, \<open>None\<close> when there is no match.
\<close>

fun match_timeslot :: "string \<Rightarrow> (string \<times> string \<times> string \<times> string) option" where
  "match_timeslot (a # b # c # d # sep # e # f # g # h # rest) =
     (if is_digit a \<and> is_digit b \<and> is_digit c \<and> is_digit d \<and> sep = CHR ''-''
         \<and> is_digit e \<and> is_digit f \<and> is_digit g \<and> is_digit h
      then Some ([a, b], [c, d], [e, f], [g, h]) else None)"
| "match_timeslot _ = None"

text \<open>
  \<open>parse_time_slot(time_slot, month, day)\<close>. \<open>re.match\<close> on \<open>None\<close> raises
  \<open>TypeError\<close>; \<open>m.group\<close> on a failed match raises \<open>AttributeError\<close>; the start is
  built before the end.
\<close>

definition parse_time_slot :: "pyval \<Rightarrow> nat \<Rightarrow> nat \<Rightarrow> py_error + (datetime \<times> datetime)" where
  "parse_time_slot time_slot month day =
     (case time_slot of
        PyNone \<Rightarrow> Inl TypeError
      | PyStr s \<Rightarrow>
          (case match_timeslot s of
             None \<Rightarrow> Inl AttributeError
           | Some (g1, g2, g3, g4) \<Rightarrow>
               bindE (mk_datetime CONFERENCE_YEAR month day (int_of_digits g1) (int_of_digits g2) conf_tz)
                 (\<lambda>start.
               bindE (mk_datetime CONFERENCE_YEAR month day (int_of_digits g3) (int_of_digits g4) conf_tz)
                 (\<lambda>end. Inr (start, end)))))"

definition format_time_slot :: "datetime \<Rightarrow> datetime \<Rightarrow> string" where
  "format_time_slot start end =
     (two_digits (dt_hour start) @ two_digits (dt_minute start)) @ ''-''
       @ (two_digits (dt_hour end) @ two_digits (dt_minute end))"

subsection \<open>YouTube titles and descriptions\<close>

text \<open>\<open>s.replace(old, new)\<close> for one-character \<open>old\<close> and \<open>new\<close>.\<close>

definition replace_char :: "char \<Rightarrow> char \<Rightarrow> string \<Rightarrow> string" where
  "replace_char old new s = map (\<lambda>c. if c = old then new else c) s"

definition make_youtube_title :: "string \<Rightarrow> string" where
  "make_youtube_title title =
     (let title = replace_char CHR ''>'' CHR '' '' (replace_char CHR ''<'' CHR '' '' title)
      in if length title > 100 then take 99 title else title)"

definition make_youtube_description :: "string \<Rightarrow> string" where
  "make_youtube_description description =
     (let description =
        replace_char CHR ''>'' CHR '' '' (replace_char CHR ''<'' CHR '' '' description)
      in if length description > 5000 then take 4999 description else description)"

section \<open>core/schedule.py: the spreadsheet, Database, Day and Session\<close>

text \<open>
  The workbook accessor \<open>core.excel_db\<close> is an external collaborator. A sheet is what the
  scripts read from it: the number of its last row and the \<open>.value\<close> of the cell at a row
  and a named column. Writing a cell's \<open>.value\<close> updates the sheet.
\<close>

record sheet =
  max_row :: nat
  cells :: "nat \<Rightarrow> string \<Rightarrow> pyval"

definition sheet_write :: "sheet \<Rightarrow> nat \<Rightarrow> string \<Rightarrow> pyval \<Rightarrow> sheet" where
  "sheet_write sh row item v = sh\<lparr>cells := (cells sh)(row := ((cells sh) row)(item := v))\<rparr>"

text \<open>A row of the \<open>computers\<close> table, by the columns the scripts read.\<close>

record computer =
  c_ID :: pyval
  c_Youtube_Stream_Key :: pyval
  c_Youtube_Stream_Key_ID :: pyval

record database =
  computers :: "computer list"

text \<open>\<open>[c for c in self.computers.items() if c["ID"].value == computer_id][0]\<close>\<close>

definition get_computer :: "database \<Rightarrow> pyval \<Rightarrow> py_error + computer" where
  "get_computer db computer_id =
     py_index (filter (\<lambda>c. c_ID c = computer_id) (computers db)) 0"

record day =
  d_database :: database
  d_sheet :: sheet
  d_month :: nat
  d_day :: nat

definition entry :: "day \<Rightarrow> nat \<Rightarrow> string \<Rightarrow> pyval" where
  "entry d row item = cells (d_sheet d) row item"

record session =
  s_event :: string
  s_name :: string
  s_day :: day
  timeslots :: "nat list"

definition Session :: "string \<Rightarrow> string \<Rightarrow> day \<Rightarrow> session" where
  "Session event name d = \<lparr>s_event = event, s_name = name, s_day = d, timeslots = []\<rparr>"

subsection \<open>Day.get_sessions\<close>

text \<open>
  The dict \<open>sessions\<close> is an association list in insertion order. One turn of the loop
  body, for row \<open>r\<close>: both cells are read, a \<open>BREAK\<close> row (unless \<open>include_breaks\<close>) and a
  row with no event are skipped, and \<open>event_name + "-" + session_name\<close> raises
  \<open>TypeError\<close> when the session cell is empty.
\<close>

definition get_sessions_row ::
  "day \<Rightarrow> bool \<Rightarrow> (string \<times> session) list \<Rightarrow> nat \<Rightarrow> py_error + (string \<times> session) list" where
  "get_sessions_row d include_breaks sessions r =
     (let event_name = entry d r ''Event'';
          session_name = entry d r ''Session''
      in if \<not> include_breaks \<and> event_name = PyStr ''BREAK'' then Inr sessions
         else case event_name of
           PyNone \<Rightarrow> Inr sessions
         | PyStr e \<Rightarrow>
             (case session_name of
                PyNone \<Rightarrow> Inl TypeError
              | PyStr n \<Rightarrow>
                  (let session_key = e @ ''-'' @ n;
                       sessions1 = (if map_of sessions session_key = None
                                    then AList.update session_key (Session e n d) sessions
                                    else sessions)
                   in Inr (AList.map_entry session_key
                             (\<lambda>s. s\<lparr>timeslots := timeslots s @ [r]\<rparr>) sessions1))))"

fun get_sessions_loop ::
  "day \<Rightarrow> bool \<Rightarrow> (string \<times> session) list \<Rightarrow> nat list \<Rightarrow> py_error + (string \<times> session) list" where
  "get_sessions_loop d include_breaks sessions [] = Inr sessions"
| "get_sessions_loop d include_breaks sessions (r # rs) =
     bindE (get_sessions_row d include_breaks sessions r)
       (\<lambda>sessions'. get_sessions_loop d include_breaks sessions' rs)"

text \<open>\<open>for r in range(3, self.sheet.table.max_row + 1)\<close>\<close>

definition get_sessions :: "day \<Rightarrow> bool \<Rightarrow> py_error + (string \<times> session) list" where
  "get_sessions d include_breaks =
     get_sessions_loop d include_breaks [] [3 ..< max_row (d_sheet d) + 1]"

text \<open>The rows the loop keeps, and the key it files a kept row under.\<close>

definition kept :: "day \<Rightarrow> bool \<Rightarrow> nat \<Rightarrow> bool" where
  "kept d include_breaks r =
     (entry d r ''Event'' \<noteq> PyNone \<and> (include_breaks \<or> entry d r ''Event'' \<noteq> PyStr ''BREAK''))"

definition kept_rows :: "day \<Rightarrow> bool \<Rightarrow> nat list" where
  "kept_rows d include_breaks = filter (kept d include_breaks) [3 ..< max_row (d_sheet d) + 1]"

definition row_key :: "day \<Rightarrow> nat \<Rightarrow> string" where
  "row_key d r = py_str (entry d r ''Event'') @ ''-'' @ py_str (entry d r ''Session'')"

text \<open>A contiguous run of \<open>rows\<close>: \<open>ts\<close> is \<open>rows\<close> from some position on, for its length.\<close>

definition contiguous_run :: "nat list \<Rightarrow> nat list \<Rightarrow> bool" where
  "contiguous_run ts rows =
     list_ex (\<lambda>i. take (length ts) (drop i rows) = ts) [0 ..< Suc (length rows)]"

subsection \<open>Session\<close>

text \<open>\<open>self.day.entry(self.timeslots[t], item).value\<close>\<close>

definition timeslot_entry :: "session \<Rightarrow> int \<Rightarrow> string \<Rightarrow> py_error + pyval" where
  "timeslot_entry s t item =
     bindE (py_index (timeslots s) t) (\<lambda>row. Inr (entry (s_day s) row item))"

text \<open>The tuple's first component is evaluated before its second.\<close>

definition session_time :: "session \<Rightarrow> py_error + (datetime \<times> datetime)" where
  "session_time s =
     bindE (timeslot_entry s 0 ''Time Slot'') (\<lambda>v0.
     bindE (parse_time_slot v0 (d_month (s_day s)) (d_day (s_day s))) (\<lambda>p0.
     bindE (timeslot_entry s (int (length (timeslots s)) - 1) ''Time Slot'') (\<lambda>v1.
     bindE (parse_time_slot v1 (d_month (s_day s)) (d_day (s_day s))) (\<lambda>p1.
     Inr (fst p0, snd p1)))))"

definition event_session_title :: "session \<Rightarrow> string" where
  "event_session_title s =
     (if s_event s = s_name s then s_event s else s_event s @ '' - '' @ s_name s)"

subsection \<open>Well-formed time slots\<close>

text \<open>
  \<open>HHMM\<close>: four digits, the hour between 00 and 23 and the minute between 00 and 59; and
  a month and day that exist in the conference year.
\<close>

definition hhmm :: "string \<Rightarrow> bool" where
  "hhmm s = (case s of [a, b, c, d] \<Rightarrow>
       is_digit a \<and> is_digit b \<and> is_digit c \<and> is_digit d
       \<and> int_of_digits [a, b] \<le> 23 \<and> int_of_digits [c, d] \<le> 59
     | _ \<Rightarrow> False)"

definition valid_date :: "nat \<Rightarrow> nat \<Rightarrow> bool" where
  "valid_date month day =
     (1 \<le> month \<and> month \<le> 12 \<and> 1 \<le> day \<and> day \<le> days_in_month CONFERENCE_YEAR month)"

subsection \<open>Reading the result of get_sessions\<close>

text \<open>The time slots filed under a key, and what holds of every entry of the dict while
  the loop runs: its key is built from its names, it has a row, and its names are those
  of its first row.\<close>

definition slots_of :: "(string \<times> session) list \<Rightarrow> string \<Rightarrow> nat list" where
  "slots_of ss k = (case map_of ss k of None \<Rightarrow> [] | Some s \<Rightarrow> timeslots s)"

definition sessions_inv :: "day \<Rightarrow> (string \<times> session) list \<Rightarrow> bool" where
  "sessions_inv d ss = (\<forall>k s. map_of ss k = Some s \<longrightarrow>
      k = s_event s @ ''-'' @ s_name s \<and> s_day s = d \<and> timeslots s \<noteq> []
      \<and> entry d (hd (timeslots s)) ''Event'' = PyStr (s_event s)
      \<and> entry d (hd (timeslots s)) ''Session'' = PyStr (s_name s))"

subsection \<open>Example data\<close>

text \<open>A sheet given by its filled cells; every other cell is empty.\<close>

definition sheet_of_rows :: "(nat \<times> (string \<times> pyval) list) list \<Rightarrow> nat \<Rightarrow> string \<Rightarrow> pyval" where
  "sheet_of_rows rows r item =
     (case map_of rows r of
        None \<Rightarrow> PyNone
      | Some cols \<Rightarrow> (case map_of cols item of None \<Rightarrow> PyNone | Some v \<Rightarrow> v))"

definition ex_database :: database where
  "ex_database = \<lparr>computers =
     [\<lparr>c_ID = PyStr ''A'', c_Youtube_Stream_Key = PyStr ''key-A'',
       c_Youtube_Stream_Key_ID = PyStr ''kid-A''\<rparr>]\<rparr>"

definition ex_day :: day where
  "ex_day = \<lparr>d_database = ex_database,
     d_sheet = \<lparr>max_row = 5, cells = sheet_of_rows
       [(3, [(''Event'', PyStr ''Papers''), (''Session'', PyStr ''Opening''),
             (''Time Slot'', PyStr ''0900-0915''), (''Time Slot Type'', PyStr ''Live''),
             (''Computer'', PyStr ''A''), (''Youtube Broadcast'', PyStr ''https://youtu.be/abc''),
             (''Zoom Meeting ID'', PyStr ''987'')]),
        (4, [(''Event'', PyStr ''Tutorial''), (''Session'', PyStr ''Intro''),
             (''Time Slot'', PyStr ''0915-1000'')]),
        (5, [(''Event'', PyStr ''Papers''), (''Session'', PyStr ''Opening''),
             (''Time Slot'', PyStr ''1000-1030'')])]\<rparr>,
     d_month = 10, d_day = 27\<rparr>"

definition ex_session :: session where
  "ex_session = \<lparr>s_event = ''Papers'', s_name = ''Opening'', s_day = ex_day, timeslots = [3, 5]\<rparr>"

definition ex_day_dash :: day where
  "ex_day_dash = \<lparr>d_database = ex_database,
     d_sheet = \<lparr>max_row = 4, cells = sheet_of_rows
       [(3, [(''Event'', PyStr ''a-b''), (''Session'', PyStr ''c'')]),
        (4, [(''Event'', PyStr ''a''), (''Session'', PyStr ''b-c'')])]\<rparr>,
     d_month = 10, d_day = 27\<rparr>"

section \<open>core/schedule.py: the streaming lifecycle\<close>

subsection \<open>External calls\<close>

text \<open>
  What a method does to the outside world is the list of its calls, in order: the
  YouTube, Zoom and \<open>time.sleep\<close> calls with the arguments that identify them, and
  every \<open>print\<close> with its text. \<open>YT_liveBroadcasts_bind\<close> carries the \<open>streamId\<close>
  argument when the call has one.
\<close>

datatype call =
    Print string
  | Sleep nat
  | YT_liveBroadcasts_list string
  | YT_liveBroadcasts_bind string "pyval option"
  | YT_liveBroadcasts_transition string string
  | YT_liveStreams_list pyval
  | YT_videos_update_embeddable string
  | Zoom_patch_livestream_status string string
  | Zoom_get_users
  | Zoom_post_meeting string string string string
  | Zoom_patch_livestream string pyval pyval

text \<open>
  What the services answer. For a broadcast id, the \<open>lifeCycleStatus\<close> of each item of
  the \<open>liveBroadcasts().list\<close> response; for a stream id, the \<open>streamStatus\<close> and
  \<open>healthStatus.status\<close> of each item of the \<open>liveStreams().list\<close> response; the
  \<open>id\<close> and \<open>last_name\<close> of each Zoom user; the \<open>id\<close> (as \<open>str\<close> prints it) and
  \<open>join_url\<close> of the created meeting; the status code of the livestream patch; and the
  password \<open>generate_password()\<close> draws. A call that gets no answer at all (a network
  failure) is outside the model.
\<close>

record services =
  yt_broadcast_items :: "string \<Rightarrow> string list"
  yt_stream_items :: "pyval \<Rightarrow> (string \<times> string) list"
  zoom_users :: "(string \<times> string) list"
  zoom_meeting_id :: string
  zoom_join_url :: string
  zoom_patch_status_code :: nat
  generated_password :: string

text \<open>A computation: its result or exception, and the calls made up to there.\<close>

type_synonym 'a io = "(py_error + 'a) \<times> call list"

definition ret :: "'a \<Rightarrow> 'a io" where
  "ret v = (Inr v, [])"

definition lift :: "py_error + 'a \<Rightarrow> 'a io" where
  "lift r = (r, [])"

definition emit :: "call \<Rightarrow> unit io" where
  "emit c = (Inr (), [c])"

definition bind_io :: "'a io \<Rightarrow> ('a \<Rightarrow> 'b io) \<Rightarrow> 'b io" where
  "bind_io m f =
     (case m of
        (Inl e, tr) \<Rightarrow> (Inl e, tr)
      | (Inr v, tr) \<Rightarrow> (case f v of (r, tr') \<Rightarrow> (r, tr @ tr')))"

definition then_io :: "unit io \<Rightarrow> 'b io \<Rightarrow> 'b io" where
  "then_io m k = bind_io m (\<lambda>_. k)"

subsection \<open>Helpers of Session\<close>

text \<open>\<open>s.split(sep)\<close> for a one-character separator.\<close>

fun split_on :: "char \<Rightarrow> string \<Rightarrow> string list" where
  "split_on sep [] = [[]]"
| "split_on sep (x # xs) =
     (if x = sep then [] # split_on sep xs
      else (case split_on sep xs of
              [] \<Rightarrow> [[x]]
            | y # ys \<Rightarrow> (x # y) # ys))"

text \<open>
  \<open>match_youtube_id\<close>: \<open>re.match("https:\/\/youtu\.be\/(.+)", url)\<close> and group 1. The
  group is what follows the prefix up to the first newline, and must not be empty.
\<close>

definition match_youtube_id :: "pyval \<Rightarrow> py_error + string" where
  "match_youtube_id url =
     (case url of
        PyNone \<Rightarrow> Inl TypeError
      | PyStr u \<Rightarrow>
          (let prefix = ''https://youtu.be/'';
               rest = takeWhile (\<lambda>c. c \<noteq> CHR 0x0A) (drop (length prefix) u)
           in if take (length prefix) u = prefix \<and> rest \<noteq> [] then Inr rest
              else Inl AttributeError))"

definition youtube_broadcast_id :: "session \<Rightarrow> py_error + string" where
  "youtube_broadcast_id s =
     bindE (timeslot_entry s 0 ''Youtube Broadcast'') match_youtube_id"

text \<open>
  \<open>special_notes\<close>: the set of notes, as the list of what is added to it. The loop
  indexes only existing time slots, so it raises nothing.
\<close>

definition special_notes :: "session \<Rightarrow> string list" where
  "special_notes s =
     concat (map (\<lambda>row.
        (case entry (s_day s) row ''Special Notes'' of
           PyNone \<Rightarrow> []
         | PyStr v \<Rightarrow> (if v \<noteq> [] then split_on CHR ''|'' v else []))
        @ (if truthy (entry (s_day s) row ''Speaker Photo'')
           then [''Has keynote speaker photo''] else [])
        @ (if truthy (entry (s_day s) row ''Custom Title Image'')
           then [''Uses custom title image''] else []))
      (timeslots s))"

definition get_stream_key :: "session \<Rightarrow> py_error + pyval" where
  "get_stream_key s =
     bindE (timeslot_entry s 0 ''Computer'') (\<lambda>computer.
     bindE (get_computer (d_database (s_day s)) computer) (\<lambda>c.
     Inr (c_Youtube_Stream_Key c)))"

text \<open>\<open>response["items"][0]["status"]\<close>: an empty \<open>items\<close> raises \<open>IndexError\<close>.\<close>

definition get_stream_status :: "services \<Rightarrow> session \<Rightarrow> (string \<times> string) io" where
  "get_stream_status sv s =
     bind_io (lift (timeslot_entry s 0 ''Computer'')) (\<lambda>computer.
     bind_io (lift (get_computer (d_database (s_day s)) computer)) (\<lambda>c.
     then_io (emit (YT_liveStreams_list (c_Youtube_Stream_Key_ID c)))
       (lift (py_index (yt_stream_items sv (c_Youtube_Stream_Key_ID c)) 0))))"

definition get_broadcast_status :: "services \<Rightarrow> session \<Rightarrow> string io" where
  "get_broadcast_status sv s =
     bind_io (lift (youtube_broadcast_id s)) (\<lambda>bid.
     then_io (emit (YT_liveBroadcasts_list bid))
       (lift (py_index (yt_broadcast_items sv bid) 0)))"

definition get_zoom_meeting_id :: "session \<Rightarrow> py_error + pyval" where
  "get_zoom_meeting_id s = timeslot_entry s 0 ''Zoom Meeting ID''"

text \<open>\<open>str(n)\<close> for a natural number.\<close>

fun str_nat :: "nat \<Rightarrow> string" where
  "str_nat n = (if n < 10 then [digit_char n] else str_nat (n div 10) @ [digit_char n])"

definition quoted :: "string \<Rightarrow> string" where
  "quoted s = [CHR 0x27] @ s @ [CHR 0x27]"

subsection \<open>The texts printed\<close>

definition msg_manual_start :: "session \<Rightarrow> pyval \<Rightarrow> string" where
  "msg_manual_start s computer =
     ''Stream for '' @ event_session_title s @ '' must be assigned to computer ''
       @ py_str computer @ '' and advanced manually''"

definition msg_cannot_go_live :: "string \<Rightarrow> string \<Rightarrow> string" where
  "msg_cannot_go_live bid broadcast_status =
     ''Broadcast '' @ bid @ '' is in state '' @ broadcast_status
       @ '', and cannot be (re-)made live''"

definition msg_attaching :: "pyval \<Rightarrow> string \<Rightarrow> string" where
  "msg_attaching stream_key bid =
     ''Attaching stream '' @ quoted (py_str stream_key) @ '' to '' @ quoted bid"

definition msg_not_active :: "pyval \<Rightarrow> pyval \<Rightarrow> string \<Rightarrow> string \<Rightarrow> string" where
  "msg_not_active computer stream_key bid stream_status =
     ''Stream on computer '' @ py_str computer @ '' (key '' @ py_str stream_key @ '') for''
       @ ''broadcast '' @ bid @ '' is not active (currently '' @ stream_status @ '').''
       @ ''will wait 10s longer for Zoom and retry''"

definition msg_retried :: "nat \<Rightarrow> string" where
  "msg_retried retries =
     ''Retried '' @ str_nat retries @ '' times and zoom stream is still not live!?''"

definition msg_unhealthy :: "pyval \<Rightarrow> pyval \<Rightarrow> string \<Rightarrow> string" where
  "msg_unhealthy computer stream_key stream_health =
     ''WARNING: Stream on computer '' @ py_str computer @ '' (key '' @ py_str stream_key
       @ '') is active, but not healthy. Health status is '' @ stream_health"

definition msg_manual_stop :: "session \<Rightarrow> string" where
  "msg_manual_stop s = ''Stream for '' @ event_session_title s @ '' must be stopped manually''"

definition msg_already_complete :: "string \<Rightarrow> string" where
  "msg_already_complete bid =
     ''Broadcast '' @ bid @ '' has already been made complete, skipping redundant transition''"

definition msg_not_live :: "string \<Rightarrow> string \<Rightarrow> string" where
  "msg_not_live bid broadcast_status =
     ''Broadcast '' @ bid @ '' is '' @ broadcast_status @ '', not live, cannot make complete''"

subsection \<open>Session.start_streaming\<close>

text \<open>
  An early \<open>return\<close> ends the branch. \<open>youtube_broadcast_id\<close> reads the sheet only, and
  the sheet does not change here, so each of its calls after the first returns what the
  first returned. The poll of the stream is the one \<open>get_stream_status\<close> call of the
  source; \<open>retries\<close> goes from 0 to 1 and is compared with 2.
\<close>

definition start_streaming :: "services \<Rightarrow> session \<Rightarrow> unit io" where
  "start_streaming sv s =
     bind_io (lift (timeslot_entry s 0 ''Time Slot Type'')) (\<lambda>timeslot_type.
     if timeslot_type = PyStr ''Zoom Only'' \<or> timeslot_type = PyStr ''Discord Only''
     then emit (Print ''Not streaming Zoom/Discord only event'')
     else
     bind_io (lift (timeslot_entry s 0 ''Computer'')) (\<lambda>computer.
     if ''Manual Stream'' \<in> set (special_notes s)
     then emit (Print (msg_manual_start s computer))
     else
     bind_io (lift (get_computer (d_database (s_day s)) computer)) (\<lambda>computer_info.
     let stream_key = c_Youtube_Stream_Key computer_info;
         stream_key_id = c_Youtube_Stream_Key_ID computer_info
     in
     bind_io (get_broadcast_status sv s) (\<lambda>broadcast_status.
     bind_io (lift (youtube_broadcast_id s)) (\<lambda>bid.
     if broadcast_status \<noteq> ''ready'' \<and> broadcast_status \<noteq> ''created''
     then emit (Print (msg_cannot_go_live bid broadcast_status))
     else
     then_io (emit (Print (msg_attaching stream_key bid)))
    (then_io (emit (YT_liveBroadcasts_bind bid (Some stream_key_id)))
    (bind_io (lift (get_zoom_meeting_id s)) (\<lambda>meeting_id.
     then_io (emit (Zoom_patch_livestream_status (py_str meeting_id) ''start''))
    (then_io (emit (Print ''Sleeping 10s for Zoom live stream to begin''))
    (then_io (emit (Sleep 10))
    (let retries = (0::nat) in
     bind_io (get_stream_status sv s) (\<lambda>(stream_status, stream_health).
     then_io
       (if stream_status \<noteq> ''active''
        then then_io (emit (Print (msg_not_active computer stream_key bid stream_status)))
            (then_io (emit (Sleep 10))
            (let retries = retries + 1
             in if retries \<ge> 2 then emit (Print (msg_retried retries)) else ret ()))
        else ret ())
    (then_io
       (if stream_health \<noteq> ''good''
        then emit (Print (msg_unhealthy computer stream_key stream_health))
        else ret ())
       (emit (YT_liveBroadcasts_transition ''live'' bid)))))))))))))))"

subsection \<open>Session.stop_streaming\<close>

definition stop_streaming :: "services \<Rightarrow> session \<Rightarrow> unit io" where
  "stop_streaming sv s =
     bind_io (lift (timeslot_entry s 0 ''Time Slot Type'')) (\<lambda>timeslot_type.
     if timeslot_type = PyStr ''Zoom Only'' \<or> timeslot_type = PyStr ''Discord Only''
     then emit (Print ''No stream to stop for Zoom/Discord only event'')
     else
     bind_io (lift (timeslot_entry s 0 ''Computer'')) (\<lambda>computer.
     if ''Manual Stream'' \<in> set (special_notes s)
     then emit (Print (msg_manual_stop s))
     else
     bind_io (get_broadcast_status sv s) (\<lambda>broadcast_status.
     bind_io (lift (youtube_broadcast_id s)) (\<lambda>bid.
     if broadcast_status = ''complete''
     then emit (Print (msg_already_complete bid))
     else if broadcast_status \<noteq> ''live''
     then emit (Print (msg_not_live bid broadcast_status))
     else
     then_io (emit (YT_liveBroadcasts_transition ''complete'' bid))
    (then_io (emit (YT_liveBroadcasts_bind bid None))
    (then_io (emit (YT_videos_update_embeddable bid))
    (bind_io (lift (get_zoom_meeting_id s)) (\<lambda>meeting_id.
     emit (Zoom_patch_livestream_status (py_str meeting_id) ''stop'')))))))))"

subsection \<open>Sessions that are streamed, and example services\<close>

text \<open>A session with a time slot that is neither \<open>Zoom Only\<close> nor \<open>Discord Only\<close> and has no
  \<open>Manual Stream\<close> special note: the two early returns of \<open>start_streaming\<close> and
  \<open>stop_streaming\<close> are not taken.\<close>

definition streamed :: "session \<Rightarrow> bool" where
  "streamed s =
     (timeslots s \<noteq> []
      \<and> entry (s_day s) (hd (timeslots s)) ''Time Slot Type'' \<noteq> PyStr ''Zoom Only''
      \<and> entry (s_day s) (hd (timeslots s)) ''Time Slot Type'' \<noteq> PyStr ''Discord Only''
      \<and> ''Manual Stream'' \<notin> set (special_notes s))"

definition ex_services :: "string \<Rightarrow> string \<times> string \<Rightarrow> nat \<Rightarrow> services" where
  "ex_services broadcast_status stream_status code =
     \<lparr>yt_broadcast_items = (\<lambda>bid. if bid = ''abc'' then [broadcast_status] else []),
      yt_stream_items = (\<lambda>k. if k = PyStr ''kid-A'' then [stream_status] else []),
      zoom_users = [(''u1'', ''A''), (''u2'', ''B'')],
      zoom_meeting_id = ''555'',
      zoom_join_url = ''https://zoom.us/j/555'',
      zoom_patch_status_code = code,
      generated_password = ''Xy12Zw34''\<rparr>"

definition ex_computer :: computer where
  "ex_computer = \<lparr>c_ID = PyStr ''A'', c_Youtube_Stream_Key = PyStr ''key-A'',
       c_Youtube_Stream_Key_ID = PyStr ''kid-A''\<rparr>"

subsection \<open>Session.schedule_zoom\<close>

text \<open>\<open>setup_time\<close>, in minutes.\<close>

definition setup_time :: "session \<Rightarrow> py_error + nat" where
  "setup_time s =
     bindE (timeslot_entry s 0 ''Time Slot Type'')
       (\<lambda>v. Inr (if v \<noteq> PyStr ''Zoom Only'' then 15 else 0))"

text \<open>\<open>sep.join(xs)\<close>\<close>

fun join_with :: "string \<Rightarrow> string list \<Rightarrow> string" where
  "join_with sep [] = []"
| "join_with sep [x] = x"
| "join_with sep (x # y # ys) = x @ sep @ join_with sep (y # ys)"

text \<open>The loop over \<open>r["users"]\<close>: the host is the last user whose \<open>last_name\<close> is the
  computer, every other user is an alternative host.\<close>

definition pick_host :: "pyval \<Rightarrow> (string \<times> string) list \<Rightarrow> string option \<times> string list" where
  "pick_host computer users =
     foldl (\<lambda>(host, alternative_hosts) (uid, last_name).
              if PyStr last_name = computer then (Some uid, alternative_hosts)
              else (host, alternative_hosts @ [uid]))
       (None, []) users"

definition msg_testing_host :: string where
  "msg_testing_host =
     ''WARNING: TESTING CODE in schedule_zoom: Picking first host after not finding track ID Zoom host''"

definition msg_livestream_failed :: "string \<Rightarrow> string" where
  "msg_livestream_failed meeting_topic =
     ''ERROR: Failed to set live stream for Zoom meeting '' @ meeting_topic"

text \<open>The three cells the last loop writes in one row.\<close>

definition write_zoom_cells :: "string \<Rightarrow> string \<Rightarrow> string \<Rightarrow> sheet \<Rightarrow> nat \<Rightarrow> sheet" where
  "write_zoom_cells join_url meeting_id password sh row =
     sheet_write
       (sheet_write
          (sheet_write sh row ''Zoom URL'' (PyStr join_url))
          row ''Zoom Meeting ID'' (PyStr meeting_id))
       row ''Zoom Password'' (PyStr password)"

text \<open>
  \<open>schedule_zoom\<close> up to and including the check of the patch's status code; it returns
  the password put into \<open>meeting_info\<close>. \<open>not host\<close> holds for \<open>None\<close> and for an empty
  id. The posted \<open>meeting_info\<close> appears with its host, topic, alternative hosts and
  password; its start time, duration and agenda are date arithmetic and text built from
  \<open>session_time\<close>, \<open>setup_time\<close> and the cells of the session's rows (\<open>str(self)\<close>),
  which raise nothing once \<open>session_time\<close> has returned.
\<close>

definition schedule_zoom_calls :: "services \<Rightarrow> session \<Rightarrow> string io" where
  "schedule_zoom_calls sv s =
     bind_io (lift (timeslot_entry s 0 ''Computer'')) (\<lambda>computer.
     then_io (emit Zoom_get_users)
    (bind_io
       (case pick_host computer (zoom_users sv) of
          (Some h, alternative_hosts) \<Rightarrow>
            if h \<noteq> [] then ret (h, alternative_hosts)
            else then_io (emit (Print msg_testing_host))
                   (bind_io (lift (py_index (zoom_users sv) 0)) (\<lambda>u. ret (fst u, [])))
        | (None, alternative_hosts) \<Rightarrow>
            then_io (emit (Print msg_testing_host))
              (bind_io (lift (py_index (zoom_users sv) 0)) (\<lambda>u. ret (fst u, []))))
       (\<lambda>(host, alternative_hosts).
     bind_io (lift (session_time s)) (\<lambda>session_time.
     bind_io (lift (setup_time s)) (\<lambda>setup.
     let meeting_topic0 = CONFERENCE_NAME @ '': '' @ event_session_title s;
         meeting_topic = (if length meeting_topic0 > 200 then take 199 meeting_topic0
                          else meeting_topic0);
         password = generated_password sv
     in
     then_io (emit (Zoom_post_meeting host meeting_topic
                      (join_with '','' alternative_hosts) password))
    (bind_io (lift (get_stream_key s)) (\<lambda>stream_key.
     bind_io (lift (timeslot_entry s 0 ''Youtube Broadcast'')) (\<lambda>page_url.
     then_io (emit (Zoom_patch_livestream (zoom_meeting_id sv) stream_key page_url))
       (if zoom_patch_status_code sv \<noteq> 204
        then then_io (emit (Print (msg_livestream_failed meeting_topic)))
               (lift (Inl (SystemExit 1)))
        else ret password)))))))))"

text \<open>
  The whole method: an exception leaves the sheet as it was; otherwise the loop over the
  time slots writes the three Zoom cells of each row.
\<close>

definition schedule_zoom :: "services \<Rightarrow> session \<Rightarrow> (py_error + unit) \<times> call list \<times> sheet" where
  "schedule_zoom sv s =
     (case schedule_zoom_calls sv s of
        (Inl e, tr) \<Rightarrow> (Inl e, tr, d_sheet (s_day s))
      | (Inr password, tr) \<Rightarrow>
          (Inr (), tr,
           foldl (write_zoom_cells (zoom_join_url sv) (zoom_meeting_id sv) password)
             (d_sheet (s_day s)) (timeslots s)))"

section \<open>auth0_helper.py: the registrant sync\<close>






















section \<open>Properties of the formatting helpers\<close>

lemma replace_char_length: "length (replace_char a b s) = length s"
  by (simp add: replace_char_def)

lemma replace_char_absent: "a \<noteq> b \<Longrightarrow> a \<notin> set (replace_char a b s)"
  by (auto simp: replace_char_def)

lemma replace_char_keeps_absent: "c \<notin> set s \<Longrightarrow> c \<noteq> b \<Longrightarrow> c \<notin> set (replace_char a b s)"
  by (auto simp: replace_char_def)

lemma replace_both:
  "replace_char CHR ''>'' CHR '' '' (replace_char CHR ''<'' CHR '' '' s) =
     map (\<lambda>c. if c = CHR ''<'' \<or> c = CHR ''>'' then CHR '' '' else c) s"
  by (simp add: replace_char_def)

lemma replace_both_clean:
  "CHR ''<'' \<notin> set (replace_char CHR ''>'' CHR '' '' (replace_char CHR ''<'' CHR '' '' s))"
  "CHR ''>'' \<notin> set (replace_char CHR ''>'' CHR '' '' (replace_char CHR ''<'' CHR '' '' s))"
  by (auto simp: replace_char_def)

lemma notin_take: "c \<notin> set xs \<Longrightarrow> c \<notin> set (take n xs)"
  by (auto dest: in_set_takeD)

subsection \<open>YouTube title and description\<close>

lemma truncate_clean:
  fixes n m :: nat
  defines "t \<equiv> \<lambda>s. replace_char CHR ''>'' CHR '' '' (replace_char CHR ''<'' CHR '' '' s)"
  shows "CHR ''<'' \<notin> set (if length (t s) > n then take m (t s) else t s)"
    and "CHR ''>'' \<notin> set (if length (t s) > n then take m (t s) else t s)"
  unfolding t_def using replace_both_clean [of s] by (auto dest: in_set_takeD)

text \<open>
  Claim C9. For every input string, \<open>make_youtube_title\<close> returns at most 100 characters
  and \<open>make_youtube_description\<close> at most 5000, neither result contains \<open><\<close> or \<open>>\<close>,
  and an input already within the limit comes back with exactly its \<open><\<close> and \<open>>\<close>
  replaced by spaces.
\<close>

theorem youtube_truncation:
  "length (make_youtube_title s) \<le> 100
   \<and> CHR ''<'' \<notin> set (make_youtube_title s) \<and> CHR ''>'' \<notin> set (make_youtube_title s)
   \<and> length (make_youtube_description s) \<le> 5000
   \<and> CHR ''<'' \<notin> set (make_youtube_description s)
   \<and> CHR ''>'' \<notin> set (make_youtube_description s)
   \<and> (length s \<le> 100 \<longrightarrow>
        make_youtube_title s
          = map (\<lambda>c. if c = CHR ''<'' \<or> c = CHR ''>'' then CHR '' '' else c) s)
   \<and> (length s \<le> 5000 \<longrightarrow>
        make_youtube_description s
          = map (\<lambda>c. if c = CHR ''<'' \<or> c = CHR ''>'' then CHR '' '' else c) s)"
proof -
  have len_t: "length (make_youtube_title s) \<le> 100"
    by (simp add: make_youtube_title_def Let_def replace_char_length)
  have len_d: "length (make_youtube_description s) \<le> 5000"
    by (simp add: make_youtube_description_def Let_def replace_char_length)
  have clean_t: "CHR ''<'' \<notin> set (make_youtube_title s)" "CHR ''>'' \<notin> set (make_youtube_title s)"
    unfolding make_youtube_title_def Let_def by (rule truncate_clean)+
  have clean_d: "CHR ''<'' \<notin> set (make_youtube_description s)"
    "CHR ''>'' \<notin> set (make_youtube_description s)"
    unfolding make_youtube_description_def Let_def by (rule truncate_clean)+
  have same_t: "length s \<le> 100 \<longrightarrow> make_youtube_title s
      = map (\<lambda>c. if c = CHR ''<'' \<or> c = CHR ''>'' then CHR '' '' else c) s"
    by (simp add: make_youtube_title_def Let_def replace_char_length replace_both)
  have same_d: "length s \<le> 5000 \<longrightarrow> make_youtube_description s
      = map (\<lambda>c. if c = CHR ''<'' \<or> c = CHR ''>'' then CHR '' '' else c) s"
    by (simp add: make_youtube_description_def Let_def replace_char_length replace_both)
  from len_t len_d clean_t clean_d same_t same_d show ?thesis by blast
qed

theorem youtube_truncation_witness:
  "length ''a<b>c'' \<le> (100::nat) \<and> length ''a<b>c'' \<le> (5000::nat)
   \<and> make_youtube_title ''a<b>c'' = ''a b c''
   \<and> make_youtube_description ''a<b>c'' = ''a b c''
   \<and> CHR ''<'' \<notin> set (make_youtube_title ''a<b>c'')"
  using youtube_truncation [of "''a<b>c''"] by simp

subsection \<open>Time slots\<close>

lemma digit_roundtrip: "is_digit c \<Longrightarrow> digit_char (digit_val c) = c"
  by (auto simp: is_digit_def digit_val_def digit_char_def)

lemma digit_val_lt: "is_digit c \<Longrightarrow> digit_val c < 10"
  by (auto simp: is_digit_def digit_val_def)

lemma two_digits_int:
  assumes "is_digit a" "is_digit b"
  shows "two_digits (int_of_digits [a, b]) = [a, b]"
proof -
  note lt = digit_val_lt [OF assms(2)]
  have hi: "(10 * digit_val a + digit_val b) div 10 = digit_val a"
    using lt by simp
  have lo: "(10 * digit_val a + digit_val b) mod 10 = digit_val b"
    using lt by simp
  have "digit_char (10 * digit_val a + digit_val b) = digit_char (digit_val b)"
    unfolding digit_char_def lo using lt by simp
  then show ?thesis
    using assms by (simp add: two_digits_def int_of_digits_def hi digit_roundtrip)
qed

lemma hhmmE:
  assumes "hhmm s"
  obtains a b c d where "s = [a, b, c, d]" "is_digit a" "is_digit b" "is_digit c" "is_digit d"
    "int_of_digits [a, b] \<le> 23" "int_of_digits [c, d] \<le> 59"
  using assms by (auto simp: hhmm_def split: list.splits)

text \<open>What \<open>parse_time_slot\<close> returns on a well-formed slot, whatever follows it.\<close>

lemma parse_hhmm:
  assumes "hhmm x" "hhmm y" "valid_date month day"
  shows "parse_time_slot (PyStr (x @ ''-'' @ y @ rest)) month day =
     Inr (\<lparr>dt_year = CONFERENCE_YEAR, dt_month = month, dt_day = day,
            dt_hour = int_of_digits (take 2 x), dt_minute = int_of_digits (drop 2 x),
            dt_tzinfo = conf_tz\<rparr>,
          \<lparr>dt_year = CONFERENCE_YEAR, dt_month = month, dt_day = day,
            dt_hour = int_of_digits (take 2 y), dt_minute = int_of_digits (drop 2 y),
            dt_tzinfo = conf_tz\<rparr>)"
proof -
  from assms(1) obtain a b c d where x: "x = [a, b, c, d]"
    "is_digit a" "is_digit b" "is_digit c" "is_digit d"
    "int_of_digits [a, b] \<le> 23" "int_of_digits [c, d] \<le> 59" by (rule hhmmE)
  from assms(2) obtain e f g h where y: "y = [e, f, g, h]"
    "is_digit e" "is_digit f" "is_digit g" "is_digit h"
    "int_of_digits [e, f] \<le> 23" "int_of_digits [g, h] \<le> 59" by (rule hhmmE)
  have yr: "1 \<le> CONFERENCE_YEAR \<and> CONFERENCE_YEAR \<le> 9999"
    by (simp add: CONFERENCE_YEAR_def)
  show ?thesis
    using x(2-7) y(2-7) assms(3) yr
    by (simp add: parse_time_slot_def mk_datetime_def bindE_def valid_date_def x(1) y(1))
qed

lemma format_hhmm:
  assumes "hhmm x"
  shows "two_digits (int_of_digits (take 2 x)) @ two_digits (int_of_digits (drop 2 x)) = x"
proof -
  from assms obtain a b c d where x: "x = [a, b, c, d]"
    "is_digit a" "is_digit b" "is_digit c" "is_digit d"
    by (rule hhmmE)
  show ?thesis using x by (simp add: two_digits_int)
qed

text \<open>
  Claim C8. For every string \<open>HHMM-HHMM\<close> whose two times have an hour between 00 and
  23 and a minute between 00 and 59, and every valid month and day, \<open>parse_time_slot\<close>
  returns a pair and \<open>format_time_slot\<close> of that pair is the original string.
\<close>

theorem time_slot_roundtrip:
  assumes "hhmm x" and "hhmm y" and "valid_date month day"
  shows "\<exists>start end. parse_time_slot (PyStr (x @ ''-'' @ y)) month day = Inr (start, end)
           \<and> format_time_slot start end = x @ ''-'' @ y"
  using parse_hhmm [OF assms, of "[]"] format_hhmm [OF assms(1)] format_hhmm [OF assms(2)]
  by (simp add: format_time_slot_def)

theorem time_slot_roundtrip_witness:
  "hhmm ''0930'' \<and> hhmm ''1045'' \<and> valid_date 10 27
   \<and> (\<exists>start end. parse_time_slot (PyStr ''0930-1045'') 10 27 = Inr (start, end)
           \<and> format_time_slot start end = ''0930-1045'')"
proof -
  have h: "hhmm ''0930''" "hhmm ''1045''" "valid_date 10 27"
    by (simp_all add: hhmm_def is_digit_def int_of_digits_def digit_val_def valid_date_def
        days_in_month_def CONFERENCE_YEAR_def)
  from time_slot_roundtrip [OF h] h show ?thesis by simp
qed

subsection \<open>Session.session_time\<close>

lemma timeslot_entry_first:
  "timeslots s \<noteq> [] \<Longrightarrow>
     timeslot_entry s 0 item = Inr (entry (s_day s) (hd (timeslots s)) item)"
  by (cases "timeslots s") (simp_all add: timeslot_entry_def py_index_def bindE_def)

lemma timeslot_entry_last:
  assumes "timeslots s \<noteq> []"
  shows "timeslot_entry s (int (length (timeslots s)) - 1) item
           = Inr (entry (s_day s) (last (timeslots s)) item)"
proof -
  have "nat (int (length (timeslots s)) - 1) = length (timeslots s) - 1" by simp
  moreover have "0 < length (timeslots s)" using assms by simp
  ultimately show ?thesis
    using assms by (simp add: timeslot_entry_def py_index_def bindE_def last_conv_nth)
qed

text \<open>
  Claim C6. For a session with at least one time slot whose first and last slots start
  with a well-formed \<open>HHMM-HHMM\<close>, on a valid date, \<open>session_time\<close> returns the pair of
  the first slot's first time and the last slot's second time, both on the Day's month
  and day in \<open>CONFERENCE_YEAR\<close> and the conference time zone.
\<close>

theorem session_time_first_last:
  assumes "timeslots s \<noteq> []"
    and "entry (s_day s) (hd (timeslots s)) ''Time Slot'' = PyStr (x0 @ ''-'' @ y0 @ r0)"
    and "hhmm x0" and "hhmm y0"
    and "entry (s_day s) (last (timeslots s)) ''Time Slot'' = PyStr (x1 @ ''-'' @ y1 @ r1)"
    and "hhmm x1" and "hhmm y1"
    and "valid_date (d_month (s_day s)) (d_day (s_day s))"
  shows "session_time s =
     Inr (\<lparr>dt_year = CONFERENCE_YEAR, dt_month = d_month (s_day s), dt_day = d_day (s_day s),
            dt_hour = int_of_digits (take 2 x0), dt_minute = int_of_digits (drop 2 x0),
            dt_tzinfo = conf_tz\<rparr>,
          \<lparr>dt_year = CONFERENCE_YEAR, dt_month = d_month (s_day s), dt_day = d_day (s_day s),
            dt_hour = int_of_digits (take 2 y1), dt_minute = int_of_digits (drop 2 y1),
            dt_tzinfo = conf_tz\<rparr>)"
proof -
  have first: "timeslot_entry s 0 ''Time Slot'' = Inr (PyStr (x0 @ ''-'' @ y0 @ r0))"
    using assms(1,2) by (simp add: timeslot_entry_first)
  have lst: "timeslot_entry s (int (length (timeslots s)) - 1) ''Time Slot''
      = Inr (PyStr (x1 @ ''-'' @ y1 @ r1))"
    using assms(1,5) by (simp add: timeslot_entry_last)
  note p0 = parse_hhmm [OF assms(3,4,8), of r0]
  note p1 = parse_hhmm [OF assms(6,7,8), of r1]
  show ?thesis
    unfolding session_time_def first lst bindE_def by (simp only: p0 p1 sum.case fst_conv snd_conv)
qed

theorem session_time_first_last_witness:
  "timeslots ex_session \<noteq> []
   \<and> hhmm ''0900'' \<and> hhmm ''0915'' \<and> hhmm ''1000'' \<and> hhmm ''1030''
   \<and> valid_date (d_month (s_day ex_session)) (d_day (s_day ex_session))
   \<and> session_time ex_session =
     Inr (\<lparr>dt_year = 2021, dt_month = 10, dt_day = 27, dt_hour = 9, dt_minute = 0,
            dt_tzinfo = - 300\<rparr>,
          \<lparr>dt_year = 2021, dt_month = 10, dt_day = 27, dt_hour = 10, dt_minute = 30,
            dt_tzinfo = - 300\<rparr>)"
proof -
  have ne: "timeslots ex_session \<noteq> []" by (simp add: ex_session_def)
  have c0: "entry (s_day ex_session) (hd (timeslots ex_session)) ''Time Slot''
      = PyStr (''0900'' @ ''-'' @ ''0915'' @ [])"
    by (simp add: ex_session_def ex_day_def entry_def sheet_of_rows_def)
  have c1: "entry (s_day ex_session) (last (timeslots ex_session)) ''Time Slot''
      = PyStr (''1000'' @ ''-'' @ ''1030'' @ [])"
    by (simp add: ex_session_def ex_day_def entry_def sheet_of_rows_def)
  have h: "hhmm ''0900''" "hhmm ''0915''" "hhmm ''1000''" "hhmm ''1030''"
    by (simp_all add: hhmm_def is_digit_def int_of_digits_def digit_val_def)
  have v: "valid_date (d_month (s_day ex_session)) (d_day (s_day ex_session))"
    by (simp add: valid_date_def ex_session_def ex_day_def days_in_month_def CONFERENCE_YEAR_def)
  have md: "d_month (s_day ex_session) = 10" "d_day (s_day ex_session) = 27"
    by (simp_all add: ex_session_def ex_day_def)
  from session_time_first_last [OF ne c0 h(1,2) c1 h(3,4) v]
  have "session_time ex_session =
     Inr (\<lparr>dt_year = 2021, dt_month = 10, dt_day = 27, dt_hour = 9, dt_minute = 0,
            dt_tzinfo = - 300\<rparr>,
          \<lparr>dt_year = 2021, dt_month = 10, dt_day = 27, dt_hour = 10, dt_minute = 30,
            dt_tzinfo = - 300\<rparr>)"
    by (simp add: md CONFERENCE_YEAR_def conf_tz_def int_of_digits_def digit_val_def)
  with ne h v show ?thesis by (intro conjI)
qed

section \<open>Day.get_sessions\<close>

lemma get_sessions_row_skip:
  "\<not> kept d ib r \<Longrightarrow> get_sessions_row d ib ss r = Inr ss"
  by (auto simp: get_sessions_row_def kept_def Let_def split: pyval.splits)

lemma get_sessions_row_err:
  "kept d ib r \<Longrightarrow> entry d r ''Session'' = PyNone \<Longrightarrow> get_sessions_row d ib ss r = Inl TypeError"
  by (auto simp: get_sessions_row_def kept_def Let_def split: pyval.splits)

lemma get_sessions_row_keep:
  assumes "kept d ib r" and "entry d r ''Session'' = PyStr n"
  shows "\<exists>e. entry d r ''Event'' = PyStr e \<and> row_key d r = e @ ''-'' @ n \<and>
    get_sessions_row d ib ss r =
      Inr (AList.map_entry (row_key d r) (\<lambda>s. s\<lparr>timeslots := timeslots s @ [r]\<rparr>)
            (if map_of ss (row_key d r) = None
             then AList.update (row_key d r) (Session e n d) ss else ss))"
  using assms
  by (cases "entry d r ''Event''")
     (auto simp: get_sessions_row_def kept_def Let_def row_key_def py_str_def)

lemma row_step:
  assumes "get_sessions_row d ib ss r = Inr ss'" and "distinct (map fst ss)" and "sessions_inv d ss"
  shows "distinct (map fst ss') \<and> sessions_inv d ss'
     \<and> (\<forall>k. slots_of ss' k = slots_of ss k @ (if kept d ib r \<and> row_key d r = k then [r] else []))
     \<and> fst ` set ss' = fst ` set ss \<union> (if kept d ib r then {row_key d r} else {})"
proof (cases "kept d ib r")
  case False
  then have "ss' = ss" using assms(1) by (simp add: get_sessions_row_skip)
  with False assms show ?thesis by simp
next
  case True
  then obtain n where n: "entry d r ''Session'' = PyStr n"
    using assms(1) by (cases "entry d r ''Session''") (auto simp: get_sessions_row_err)
  from get_sessions_row_keep [OF True n, of ss] obtain e where
    e: "entry d r ''Event'' = PyStr e" and key: "row_key d r = e @ ''-'' @ n" and
    res: "get_sessions_row d ib ss r =
      Inr (AList.map_entry (row_key d r) (\<lambda>s. s\<lparr>timeslots := timeslots s @ [r]\<rparr>)
            (if map_of ss (row_key d r) = None
             then AList.update (row_key d r) (Session e n d) ss else ss))" by blast
  define K where "K = row_key d r"
  define ss1 where "ss1 = (if map_of ss K = None then AList.update K (Session e n d) ss else ss)"
  have ss': "ss' = AList.map_entry K (\<lambda>s. s\<lparr>timeslots := timeslots s @ [r]\<rparr>) ss1"
    using res assms(1) by (simp add: K_def ss1_def)
  have d1: "distinct (map fst ss1)" using assms(2) by (simp add: ss1_def distinct_update)
  have dist: "distinct (map fst ss')" using d1 by (simp add: ss' distinct_map_entry)
  have dom1: "fst ` set ss1 = insert K (fst ` set ss)"
    by (auto simp: ss1_def dom_update map_of_eq_None_iff)
  have dom: "fst ` set ss' = insert K (fst ` set ss)"
    using dom1 by (simp add: ss' dom_map_entry)
  have m1: "map_of ss1 k = (if k = K \<and> map_of ss K = None then Some (Session e n d) else map_of ss k)" for k
    by (simp add: ss1_def update_conv')
  have m': "map_of ss' k = (if k = K then
        Some ((case map_of ss K of None \<Rightarrow> Session e n d | Some s \<Rightarrow> s)\<lparr>timeslots :=
           timeslots (case map_of ss K of None \<Rightarrow> Session e n d | Some s \<Rightarrow> s) @ [r]\<rparr>)
      else map_of ss k)" for k
    by (auto simp: ss' map_of_map_entry m1 split: option.splits)
  have slots: "slots_of ss' k = slots_of ss k @ (if kept d ib r \<and> row_key d r = k then [r] else [])" for k
    using True by (auto simp: slots_of_def m' K_def Session_def split: option.splits)
  have inv': "sessions_inv d ss'"
    unfolding sessions_inv_def
  proof (intro allI impI)
    fix k s assume ks: "map_of ss' k = Some s"
    show "k = s_event s @ ''-'' @ s_name s \<and> s_day s = d \<and> timeslots s \<noteq> []
      \<and> entry d (hd (timeslots s)) ''Event'' = PyStr (s_event s)
      \<and> entry d (hd (timeslots s)) ''Session'' = PyStr (s_name s)"
    proof (cases "k = K")
      case False
      with ks have "map_of ss k = Some s" by (simp add: m')
      with assms(3) show ?thesis by (simp add: sessions_inv_def)
    next
      case kK: True
      show ?thesis
      proof (cases "map_of ss K")
        case None
        with ks kK have "s = (Session e n d)\<lparr>timeslots := [r]\<rparr>" by (simp add: m' Session_def)
        then show ?thesis using kK key e n by (simp add: Session_def K_def)
      next
        case (Some s0)
        with ks kK have s: "s = s0\<lparr>timeslots := timeslots s0 @ [r]\<rparr>" by (simp add: m')
        from Some assms(3) have "K = s_event s0 @ ''-'' @ s_name s0 \<and> s_day s0 = d \<and> timeslots s0 \<noteq> []
          \<and> entry d (hd (timeslots s0)) ''Event'' = PyStr (s_event s0)
          \<and> entry d (hd (timeslots s0)) ''Session'' = PyStr (s_name s0)"
          by (simp add: sessions_inv_def)
        then show ?thesis using s kK by simp
      qed
    qed
  qed
  from dist inv' slots dom True show ?thesis by (simp add: K_def)
qed

lemma loop_inv:
  assumes "get_sessions_loop d ib ss rs = Inr ss'" and "distinct (map fst ss)" and "sessions_inv d ss"
  shows "distinct (map fst ss') \<and> sessions_inv d ss'
     \<and> (\<forall>k. slots_of ss' k = slots_of ss k @ filter (\<lambda>r. kept d ib r \<and> row_key d r = k) rs)
     \<and> fst ` set ss' = fst ` set ss \<union> row_key d ` {r \<in> set rs. kept d ib r}"
  using assms
proof (induction rs arbitrary: ss)
  case Nil
  then show ?case by simp
next
  case (Cons r rs)
  from Cons.prems(1) obtain ss1 where
    step: "get_sessions_row d ib ss r = Inr ss1" and rest: "get_sessions_loop d ib ss1 rs = Inr ss'"
    by (cases "get_sessions_row d ib ss r") (auto simp: bindE_def)
  note s = row_step [OF step Cons.prems(2,3)]
  from s have d1: "distinct (map fst ss1)" and g1: "sessions_inv d ss1" by blast+
  note i = Cons.IH [OF rest d1 g1]
  from s i show ?case by auto
qed

lemma loop_succeeds:
  assumes "\<forall>r \<in> set rs. kept d ib r \<longrightarrow> entry d r ''Session'' \<noteq> PyNone"
  shows "\<exists>ss'. get_sessions_loop d ib ss rs = Inr ss'"
  using assms
proof (induction rs arbitrary: ss)
  case Nil
  then show ?case by simp
next
  case (Cons r rs)
  have "\<exists>ss1. get_sessions_row d ib ss r = Inr ss1"
  proof (cases "kept d ib r")
    case False
    then show ?thesis by (simp add: get_sessions_row_skip)
  next
    case True
    with Cons.prems obtain n where "entry d r ''Session'' = PyStr n"
      by (cases "entry d r ''Session''") auto
    from get_sessions_row_keep [OF True this, of ss] show ?thesis by blast
  qed
  then obtain ss1 where "get_sessions_row d ib ss r = Inr ss1" ..
  moreover from Cons.IH [of ss1] Cons.prems obtain ss' where "get_sessions_loop d ib ss1 rs = Inr ss'"
    by auto
  ultimately show ?case by (simp add: bindE_def)
qed

lemma ex_get_sessions:
  "get_sessions ex_day False =
     Inr [(''Papers-Opening'', ex_session),
          (''Tutorial-Intro'',
             \<lparr>s_event = ''Tutorial'', s_name = ''Intro'', s_day = ex_day, timeslots = [4]\<rparr>)]"
proof -
  have c: "entry ex_day 3 ''Event'' = PyStr ''Papers''" "entry ex_day 3 ''Session'' = PyStr ''Opening''"
    "entry ex_day 4 ''Event'' = PyStr ''Tutorial''" "entry ex_day 4 ''Session'' = PyStr ''Intro''"
    "entry ex_day 5 ''Event'' = PyStr ''Papers''" "entry ex_day 5 ''Session'' = PyStr ''Opening''"
    by (simp_all add: entry_def ex_day_def sheet_of_rows_def)
  have m: "max_row (d_sheet ex_day) = 5" by (simp add: ex_day_def)
  have u: "[3 ..< 5 + 1] = [3, 4, 5::nat]" by (simp add: upt_rec)
  show ?thesis
    unfolding get_sessions_def m u
    by (simp add: get_sessions_row_def c bindE_def Let_def Session_def ex_session_def)
qed

lemma ex_kept_rows: "kept_rows ex_day False = [3, 4, 5]"
proof -
  have c: "entry ex_day 3 ''Event'' = PyStr ''Papers''"
    "entry ex_day 4 ''Event'' = PyStr ''Tutorial''"
    "entry ex_day 5 ''Event'' = PyStr ''Papers''"
    by (simp_all add: entry_def ex_day_def sheet_of_rows_def)
  have m: "max_row (d_sheet ex_day) = 5" by (simp add: ex_day_def)
  have u: "[3 ..< 5 + 1] = [3, 4, 5::nat]" by (simp add: upt_rec)
  show ?thesis unfolding kept_rows_def m u by (simp add: kept_def c)
qed

text \<open>
  Claim C4 as stated fails. On \<open>ex_day\<close> rows 3 and 5 carry the same event and session
  and row 4 another one: the session of rows 3 and 5 is not a contiguous run of the kept
  rows 3, 4, 5. On \<open>ex_day_dash\<close> two rows with different event and session names share
  the key \<open>a-b-c\<close> and end in one session.
\<close>

theorem get_sessions_not_contiguous:
  "get_sessions ex_day False =
     Inr [(''Papers-Opening'', ex_session),
          (''Tutorial-Intro'',
             \<lparr>s_event = ''Tutorial'', s_name = ''Intro'', s_day = ex_day, timeslots = [4]\<rparr>)]
   \<and> timeslots ex_session = [3, 5]
   \<and> kept_rows ex_day False = [3, 4, 5]
   \<and> \<not> contiguous_run [3, 5] [3, 4, 5]
   \<and> get_sessions ex_day_dash False =
       Inr [(''a-b-c'', \<lparr>s_event = ''a-b'', s_name = ''c'', s_day = ex_day_dash, timeslots = [3, 4]\<rparr>)]
   \<and> entry ex_day_dash 4 ''Event'' = PyStr ''a''"
proof -
  have nc: "\<not> contiguous_run [3, 5] [3, 4, 5]"
    by (simp add: contiguous_run_def upt_rec)
  have c: "entry ex_day_dash 3 ''Event'' = PyStr ''a-b''" "entry ex_day_dash 3 ''Session'' = PyStr ''c''"
    "entry ex_day_dash 4 ''Event'' = PyStr ''a''" "entry ex_day_dash 4 ''Session'' = PyStr ''b-c''"
    by (simp_all add: entry_def ex_day_dash_def sheet_of_rows_def)
  have m: "max_row (d_sheet ex_day_dash) = 4" by (simp add: ex_day_dash_def)
  have u: "[3 ..< 4 + 1] = [3, 4::nat]" by (simp add: upt_rec)
  have dash: "get_sessions ex_day_dash False =
       Inr [(''a-b-c'', \<lparr>s_event = ''a-b'', s_name = ''c'', s_day = ex_day_dash, timeslots = [3, 4]\<rparr>)]"
    unfolding get_sessions_def m u
    by (simp add: get_sessions_row_def c bindE_def Let_def Session_def)
  show ?thesis
    using nc dash c(3) ex_get_sessions ex_kept_rows by (simp add: ex_session_def)
qed

lemma sorted_filter_upt: "sorted_wrt (<) (filter P [m ..< n])"
  by (rule sorted_wrt_filter) (simp add: sorted_wrt_upt)

text \<open>
  Claim C4, amended. \<open>get_sessions\<close> returns when every kept row (rows 3 to the last
  row, without rows whose event is empty and, unless \<open>include_breaks\<close>, \<open>BREAK\<close> rows)
  has a session name. Its sessions have distinct keys; each session's time slots are all
  kept rows whose key \<open>event-session\<close> is the session's key, in increasing row order,
  contiguous or not; the session carries the names of its first row; and every kept row
  belongs to exactly one returned session.
\<close>

theorem get_sessions_groups_by_key:
  "((\<forall>r \<in> set (kept_rows d ib). entry d r ''Session'' \<noteq> PyNone)
      \<longrightarrow> (\<exists>ss. get_sessions d ib = Inr ss))
   \<and> (get_sessions d ib = Inr ss \<longrightarrow>
        distinct (map fst ss)
        \<and> (\<forall>(k, s) \<in> set ss.
              k = s_event s @ ''-'' @ s_name s
              \<and> timeslots s = filter (\<lambda>r. row_key d r = k) (kept_rows d ib)
              \<and> timeslots s \<noteq> []
              \<and> sorted_wrt (<) (timeslots s)
              \<and> entry d (hd (timeslots s)) ''Event'' = PyStr (s_event s)
              \<and> entry d (hd (timeslots s)) ''Session'' = PyStr (s_name s))
        \<and> (\<forall>r \<in> set (kept_rows d ib). \<exists>!p. p \<in> set ss \<and> r \<in> set (timeslots (snd p))))"
proof (intro conjI impI)
  assume "\<forall>r \<in> set (kept_rows d ib). entry d r ''Session'' \<noteq> PyNone"
  then have "\<forall>r \<in> set [3 ..< max_row (d_sheet d) + 1].
      kept d ib r \<longrightarrow> entry d r ''Session'' \<noteq> PyNone"
    by (simp add: kept_rows_def)
  from loop_succeeds [OF this] show "\<exists>ss. get_sessions d ib = Inr ss"
    by (simp add: get_sessions_def)
next
  assume run: "get_sessions d ib = Inr ss"
  define rows where "rows = [3 ..< max_row (d_sheet d) + 1]"
  have loop: "get_sessions_loop d ib [] rows = Inr ss"
    using run by (simp add: get_sessions_def rows_def)
  have g0: "sessions_inv d []" by (simp add: sessions_inv_def)
  from loop_inv [OF loop _ g0]
  have dist: "distinct (map fst ss)" and inv: "sessions_inv d ss"
    and slots: "\<And>k. slots_of ss k = filter (\<lambda>r. kept d ib r \<and> row_key d r = k) rows"
    and keys: "fst ` set ss = row_key d ` {r \<in> set rows. kept d ib r}"
    by (simp_all add: slots_of_def)
  have kr: "filter (\<lambda>r. kept d ib r \<and> row_key d r = k) rows
      = filter (\<lambda>r. row_key d r = k) (kept_rows d ib)" for k
    by (simp add: kept_rows_def rows_def conj_commute)
  have ts: "timeslots s = filter (\<lambda>r. row_key d r = k) (kept_rows d ib)"
    if "(k, s) \<in> set ss" for k s
  proof -
    from that dist have "map_of ss k = Some s" by simp
    then have "slots_of ss k = timeslots s" by (simp add: slots_of_def)
    then show ?thesis by (simp add: slots kr)
  qed
  show "distinct (map fst ss)" by (rule dist)
  show "\<forall>(k, s) \<in> set ss.
      k = s_event s @ ''-'' @ s_name s
      \<and> timeslots s = filter (\<lambda>r. row_key d r = k) (kept_rows d ib)
      \<and> timeslots s \<noteq> []
      \<and> sorted_wrt (<) (timeslots s)
      \<and> entry d (hd (timeslots s)) ''Event'' = PyStr (s_event s)
      \<and> entry d (hd (timeslots s)) ''Session'' = PyStr (s_name s)"
  proof (clarify, intro conjI)
    fix k s assume ks: "(k, s) \<in> set ss"
    with dist have m: "map_of ss k = Some s" by simp
    from inv m show "k = s_event s @ ''-'' @ s_name s" "timeslots s \<noteq> []"
      "entry d (hd (timeslots s)) ''Event'' = PyStr (s_event s)"
      "entry d (hd (timeslots s)) ''Session'' = PyStr (s_name s)"
      by (simp_all add: sessions_inv_def)
    show "timeslots s = filter (\<lambda>r. row_key d r = k) (kept_rows d ib)" by (rule ts [OF ks])
    show "sorted_wrt (<) (timeslots s)"
      unfolding ts [OF ks] kept_rows_def filter_filter by (rule sorted_filter_upt)
  qed
  show "\<forall>r \<in> set (kept_rows d ib). \<exists>!p. p \<in> set ss \<and> r \<in> set (timeslots (snd p))"
  proof
    fix r assume r: "r \<in> set (kept_rows d ib)"
    then have "row_key d r \<in> fst ` set ss"
      unfolding keys by (auto simp: kept_rows_def rows_def)
    then obtain s where s: "(row_key d r, s) \<in> set ss" by auto
    have rin: "r \<in> set (timeslots s)" using r by (simp add: ts [OF s])
    show "\<exists>!p. p \<in> set ss \<and> r \<in> set (timeslots (snd p))"
    proof (rule ex1I [of _ "(row_key d r, s)"])
      show "(row_key d r, s) \<in> set ss \<and> r \<in> set (timeslots (snd (row_key d r, s)))"
        using s rin by simp
    next
      fix p assume p: "p \<in> set ss \<and> r \<in> set (timeslots (snd p))"
      obtain k' s' where ps: "p = (k', s')" by (cases p)
      with p have in': "(k', s') \<in> set ss" and r': "r \<in> set (timeslots s')" by simp_all
      from r' have "k' = row_key d r" by (simp add: ts [OF in'])
      moreover from this in' s dist have "s' = s"
        by (metis map_of_is_SomeI option.inject)
      ultimately show "p = (row_key d r, s)" by (simp add: ps)
    qed
  qed
qed

theorem get_sessions_groups_by_key_witness:
  "list_all (\<lambda>r. entry ex_day r ''Session'' \<noteq> PyNone) (kept_rows ex_day False)
   \<and> get_sessions ex_day False =
     Inr [(''Papers-Opening'', ex_session),
          (''Tutorial-Intro'',
             \<lparr>s_event = ''Tutorial'', s_name = ''Intro'', s_day = ex_day, timeslots = [4]\<rparr>)]
   \<and> timeslots ex_session
        = filter (\<lambda>r. row_key ex_day r = ''Papers-Opening'') (kept_rows ex_day False)
   \<and> sorted_wrt (<) (timeslots ex_session)"
proof -
  define ss where "ss = [(''Papers-Opening'', ex_session),
          (''Tutorial-Intro'',
             \<lparr>s_event = ''Tutorial'', s_name = ''Intro'', s_day = ex_day, timeslots = [4]\<rparr>)]"
  have c: "entry ex_day 3 ''Session'' = PyStr ''Opening''"
    "entry ex_day 4 ''Session'' = PyStr ''Intro''"
    "entry ex_day 5 ''Session'' = PyStr ''Opening''"
    by (simp_all add: entry_def ex_day_def sheet_of_rows_def)
  have a: "list_all (\<lambda>r. entry ex_day r ''Session'' \<noteq> PyNone) (kept_rows ex_day False)"
    by (simp add: ex_kept_rows c)
  have g: "get_sessions ex_day False = Inr ss"
    unfolding ss_def by (rule ex_get_sessions)
  note all = get_sessions_groups_by_key [of ex_day False ss, THEN conjunct2, THEN mp, OF g]
  note each = all [THEN conjunct2, THEN conjunct1]
  have "(''Papers-Opening'', ex_session) \<in> set ss" by (simp add: ss_def)
  note first = bspec [OF each this, unfolded prod.case]
  note ts = first [THEN conjunct2, THEN conjunct1]
  note srt = first [THEN conjunct2, THEN conjunct2, THEN conjunct2, THEN conjunct1]
  from a g ts srt show ?thesis unfolding ss_def by (intro conjI)
qed

section \<open>The streaming lifecycle\<close>

lemmas io_defs = bind_io_def then_io_def emit_def ret_def lift_def

lemma get_broadcast_status_returns:
  assumes "youtube_broadcast_id s = Inr bid" and "yt_broadcast_items sv bid = st # others"
  shows "get_broadcast_status sv s = (Inr st, [YT_liveBroadcasts_list bid])"
  using assms by (simp add: get_broadcast_status_def io_defs py_index_def)

lemma get_stream_status_returns:
  assumes "timeslots s \<noteq> []"
    and "get_computer (d_database (s_day s)) (entry (s_day s) (hd (timeslots s)) ''Computer'') = Inr ci"
    and "yt_stream_items sv (c_Youtube_Stream_Key_ID ci) = st # others"
  shows "get_stream_status sv s = (Inr st, [YT_liveStreams_list (c_Youtube_Stream_Key_ID ci)])"
  using assms by (simp add: get_stream_status_def io_defs py_index_def timeslot_entry_first)

lemma start_streaming_not_ready:
  assumes "streamed s"
    and "get_computer (d_database (s_day s)) (entry (s_day s) (hd (timeslots s)) ''Computer'') = Inr ci"
    and "youtube_broadcast_id s = Inr bid"
    and "yt_broadcast_items sv bid = st # others"
    and "st \<noteq> ''ready''" and "st \<noteq> ''created''"
  shows "start_streaming sv s =
     (Inr (), [YT_liveBroadcasts_list bid, Print (msg_cannot_go_live bid st)])"
proof -
  from assms(1) have ne: "timeslots s \<noteq> []" by (simp add: streamed_def)
  note gb = get_broadcast_status_returns [OF assms(3,4)]
  show ?thesis
    using assms(1,2,3,5,6)
    by (simp add: start_streaming_def streamed_def timeslot_entry_first [OF ne] gb io_defs)
qed

lemma start_streaming_ready:
  assumes "streamed s"
    and "get_computer (d_database (s_day s)) (entry (s_day s) (hd (timeslots s)) ''Computer'') = Inr ci"
    and "youtube_broadcast_id s = Inr bid"
    and "yt_broadcast_items sv bid = st # others"
    and "st = ''ready'' \<or> st = ''created''"
    and "yt_stream_items sv (c_Youtube_Stream_Key_ID ci) = (stream_status, stream_health) # others'"
  shows "start_streaming sv s =
     (Inr (),
      [YT_liveBroadcasts_list bid,
       Print (msg_attaching (c_Youtube_Stream_Key ci) bid),
       YT_liveBroadcasts_bind bid (Some (c_Youtube_Stream_Key_ID ci)),
       Zoom_patch_livestream_status
         (py_str (entry (s_day s) (hd (timeslots s)) ''Zoom Meeting ID'')) ''start'',
       Print ''Sleeping 10s for Zoom live stream to begin'',
       Sleep 10,
       YT_liveStreams_list (c_Youtube_Stream_Key_ID ci)]
      @ (if stream_status \<noteq> ''active''
         then [Print (msg_not_active (entry (s_day s) (hd (timeslots s)) ''Computer'')
                 (c_Youtube_Stream_Key ci) bid stream_status), Sleep 10]
         else [])
      @ (if stream_health \<noteq> ''good''
         then [Print (msg_unhealthy (entry (s_day s) (hd (timeslots s)) ''Computer'')
                 (c_Youtube_Stream_Key ci) stream_health)]
         else [])
      @ [YT_liveBroadcasts_transition ''live'' bid])"
proof -
  from assms(1) have ne: "timeslots s \<noteq> []" by (simp add: streamed_def)
  note gb = get_broadcast_status_returns [OF assms(3,4)]
  note gs = get_stream_status_returns [OF ne assms(2,6)]
  show ?thesis
    using assms(1,2,3,5)
    by (auto simp add: start_streaming_def streamed_def timeslot_entry_first [OF ne] gb gs io_defs
        get_zoom_meeting_id_def Let_def)
qed

lemma ex_cells:
  "entry (s_day ex_session) (hd (timeslots ex_session)) ''Time Slot Type'' = PyStr ''Live''"
  "entry (s_day ex_session) (hd (timeslots ex_session)) ''Computer'' = PyStr ''A''"
  "entry (s_day ex_session) (hd (timeslots ex_session)) ''Zoom Meeting ID'' = PyStr ''987''"
  "entry (s_day ex_session) (hd (timeslots ex_session)) ''Youtube Broadcast''
     = PyStr ''https://youtu.be/abc''"
  by (simp_all add: ex_session_def ex_day_def entry_def sheet_of_rows_def)

lemma ex_streamed: "streamed ex_session"
proof -
  have "special_notes ex_session = []"
    by (simp add: special_notes_def ex_session_def ex_day_def entry_def sheet_of_rows_def truthy_def)
  moreover have "timeslots ex_session \<noteq> []" by (simp add: ex_session_def)
  ultimately show ?thesis by (simp add: streamed_def ex_cells)
qed

lemma ex_get_computer:
  "get_computer (d_database (s_day ex_session))
     (entry (s_day ex_session) (hd (timeslots ex_session)) ''Computer'') = Inr ex_computer"
  unfolding ex_cells
  by (simp add: get_computer_def ex_session_def ex_day_def ex_database_def py_index_def
      ex_computer_def)

lemma ex_broadcast_id: "youtube_broadcast_id ex_session = Inr ''abc''"
proof -
  have "timeslots ex_session \<noteq> []" by (simp add: ex_session_def)
  from timeslot_entry_first [OF this, of "''Youtube Broadcast''"]
  show ?thesis
    by (simp add: youtube_broadcast_id_def ex_cells bindE_def match_youtube_id_def)
qed

lemma ex_items:
  "yt_broadcast_items (ex_services b st code) ''abc'' = b # []"
  "yt_stream_items (ex_services b st code) (c_Youtube_Stream_Key_ID ex_computer) = st # []"
  by (simp_all add: ex_services_def ex_computer_def)

text \<open>
  Claim C2. For a streamed session whose computer is in the \<open>computers\<close> table and whose
  broadcast id parses, when \<open>get_broadcast_status\<close> returns \<open>st\<close>: if \<open>st\<close> is neither
  \<open>ready\<close> nor \<open>created\<close>, \<open>start_streaming\<close> prints and returns, with no bind, no Zoom
  call and no transition; if \<open>st\<close> is \<open>ready\<close> or \<open>created\<close> and the stream poll
  answers, it binds the stream key, tells Zoom to start, sleeps 10 seconds, polls the
  stream status once and transitions the broadcast to \<open>live\<close>.
\<close>

theorem start_streaming_by_broadcast_status:
  assumes "streamed s"
    and "get_computer (d_database (s_day s)) (entry (s_day s) (hd (timeslots s)) ''Computer'') = Inr ci"
    and "youtube_broadcast_id s = Inr bid"
    and "yt_broadcast_items sv bid = st # others"
  shows "(st \<noteq> ''ready'' \<and> st \<noteq> ''created'' \<longrightarrow>
           start_streaming sv s =
             (Inr (), [YT_liveBroadcasts_list bid, Print (msg_cannot_go_live bid st)]))
    \<and> ((st = ''ready'' \<or> st = ''created'')
         \<and> yt_stream_items sv (c_Youtube_Stream_Key_ID ci) = (stream_status, stream_health) # others' \<longrightarrow>
           start_streaming sv s =
             (Inr (),
              [YT_liveBroadcasts_list bid,
               Print (msg_attaching (c_Youtube_Stream_Key ci) bid),
               YT_liveBroadcasts_bind bid (Some (c_Youtube_Stream_Key_ID ci)),
               Zoom_patch_livestream_status
                 (py_str (entry (s_day s) (hd (timeslots s)) ''Zoom Meeting ID'')) ''start'',
               Print ''Sleeping 10s for Zoom live stream to begin'',
               Sleep 10,
               YT_liveStreams_list (c_Youtube_Stream_Key_ID ci)]
              @ (if stream_status \<noteq> ''active''
                 then [Print (msg_not_active (entry (s_day s) (hd (timeslots s)) ''Computer'')
                         (c_Youtube_Stream_Key ci) bid stream_status), Sleep 10]
                 else [])
              @ (if stream_health \<noteq> ''good''
                 then [Print (msg_unhealthy (entry (s_day s) (hd (timeslots s)) ''Computer'')
                         (c_Youtube_Stream_Key ci) stream_health)]
                 else [])
              @ [YT_liveBroadcasts_transition ''live'' bid]))"
proof (intro conjI impI)
  assume "st \<noteq> ''ready'' \<and> st \<noteq> ''created''"
  then show "start_streaming sv s =
      (Inr (), [YT_liveBroadcasts_list bid, Print (msg_cannot_go_live bid st)])"
    using start_streaming_not_ready [OF assms] by blast
next
  assume a: "(st = ''ready'' \<or> st = ''created'')
     \<and> yt_stream_items sv (c_Youtube_Stream_Key_ID ci) = (stream_status, stream_health) # others'"
  then have r: "st = ''ready'' \<or> st = ''created''"
    and p: "yt_stream_items sv (c_Youtube_Stream_Key_ID ci) = (stream_status, stream_health) # others'"
    by blast+
  from start_streaming_ready [OF assms r p]
  show "start_streaming sv s =
             (Inr (),
              [YT_liveBroadcasts_list bid,
               Print (msg_attaching (c_Youtube_Stream_Key ci) bid),
               YT_liveBroadcasts_bind bid (Some (c_Youtube_Stream_Key_ID ci)),
               Zoom_patch_livestream_status
                 (py_str (entry (s_day s) (hd (timeslots s)) ''Zoom Meeting ID'')) ''start'',
               Print ''Sleeping 10s for Zoom live stream to begin'',
               Sleep 10,
               YT_liveStreams_list (c_Youtube_Stream_Key_ID ci)]
              @ (if stream_status \<noteq> ''active''
                 then [Print (msg_not_active (entry (s_day s) (hd (timeslots s)) ''Computer'')
                         (c_Youtube_Stream_Key ci) bid stream_status), Sleep 10]
                 else [])
              @ (if stream_health \<noteq> ''good''
                 then [Print (msg_unhealthy (entry (s_day s) (hd (timeslots s)) ''Computer'')
                         (c_Youtube_Stream_Key ci) stream_health)]
                 else [])
              @ [YT_liveBroadcasts_transition ''live'' bid])" .
qed

theorem start_streaming_by_broadcast_status_witness:
  "streamed ex_session
   \<and> youtube_broadcast_id ex_session = Inr ''abc''
   \<and> start_streaming (ex_services ''live'' (''active'', ''good'') 204) ex_session =
       (Inr (), [YT_liveBroadcasts_list ''abc'', Print (msg_cannot_go_live ''abc'' ''live'')])
   \<and> start_streaming (ex_services ''ready'' (''active'', ''good'') 204) ex_session =
       (Inr (),
        [YT_liveBroadcasts_list ''abc'',
         Print (msg_attaching (PyStr ''key-A'') ''abc''),
         YT_liveBroadcasts_bind ''abc'' (Some (PyStr ''kid-A'')),
         Zoom_patch_livestream_status ''987'' ''start'',
         Print ''Sleeping 10s for Zoom live stream to begin'',
         Sleep 10,
         YT_liveStreams_list (PyStr ''kid-A''),
         YT_liveBroadcasts_transition ''live'' ''abc''])"
proof -
  note t1 = start_streaming_by_broadcast_status [OF ex_streamed ex_get_computer ex_broadcast_id
      ex_items(1) [of "''live''" "(''active'', ''good'')" 204], THEN conjunct1]
  note t2 = start_streaming_by_broadcast_status [OF ex_streamed ex_get_computer ex_broadcast_id
      ex_items(1) [of "''ready''" "(''active'', ''good'')" 204],
      of "''active''" "''good''" "[]", THEN conjunct2]
  have a: "start_streaming (ex_services ''live'' (''active'', ''good'') 204) ex_session =
       (Inr (), [YT_liveBroadcasts_list ''abc'', Print (msg_cannot_go_live ''abc'' ''live'')])"
    using t1 by simp
  have b: "start_streaming (ex_services ''ready'' (''active'', ''good'') 204) ex_session =
       (Inr (),
        [YT_liveBroadcasts_list ''abc'',
         Print (msg_attaching (PyStr ''key-A'') ''abc''),
         YT_liveBroadcasts_bind ''abc'' (Some (PyStr ''kid-A'')),
         Zoom_patch_livestream_status ''987'' ''start'',
         Print ''Sleeping 10s for Zoom live stream to begin'',
         Sleep 10,
         YT_liveStreams_list (PyStr ''kid-A''),
         YT_liveBroadcasts_transition ''live'' ''abc''])"
    using t2 by (simp add: ex_cells py_str_def ex_computer_def ex_services_def)
  from ex_streamed ex_broadcast_id a b show ?thesis by (intro conjI)
qed

text \<open>
  Claim C1 as stated fails: with the broadcast \<open>ready\<close> and the stream polled as
  \<open>inactive\<close> with health \<open>noData\<close>, and likewise as \<open>active\<close> with health \<open>bad\<close>,
  \<open>start_streaming\<close> polls once and its last call transitions the broadcast to
  \<open>live\<close>.
\<close>

theorem start_streaming_goes_live_anyway:
  "get_stream_status (ex_services ''ready'' (''inactive'', ''noData'') 204) ex_session
     = (Inr (''inactive'', ''noData''), [YT_liveStreams_list (PyStr ''kid-A'')])
   \<and> start_streaming (ex_services ''ready'' (''inactive'', ''noData'') 204) ex_session =
       (Inr (),
        [YT_liveBroadcasts_list ''abc'',
         Print (msg_attaching (PyStr ''key-A'') ''abc''),
         YT_liveBroadcasts_bind ''abc'' (Some (PyStr ''kid-A'')),
         Zoom_patch_livestream_status ''987'' ''start'',
         Print ''Sleeping 10s for Zoom live stream to begin'',
         Sleep 10,
         YT_liveStreams_list (PyStr ''kid-A''),
         Print (msg_not_active (PyStr ''A'') (PyStr ''key-A'') ''abc'' ''inactive''),
         Sleep 10,
         Print (msg_unhealthy (PyStr ''A'') (PyStr ''key-A'') ''noData''),
         YT_liveBroadcasts_transition ''live'' ''abc''])
   \<and> start_streaming (ex_services ''ready'' (''active'', ''bad'') 204) ex_session =
       (Inr (),
        [YT_liveBroadcasts_list ''abc'',
         Print (msg_attaching (PyStr ''key-A'') ''abc''),
         YT_liveBroadcasts_bind ''abc'' (Some (PyStr ''kid-A'')),
         Zoom_patch_livestream_status ''987'' ''start'',
         Print ''Sleeping 10s for Zoom live stream to begin'',
         Sleep 10,
         YT_liveStreams_list (PyStr ''kid-A''),
         Print (msg_unhealthy (PyStr ''A'') (PyStr ''key-A'') ''bad''),
         YT_liveBroadcasts_transition ''live'' ''abc''])"
proof -
  have ne: "timeslots ex_session \<noteq> []" by (simp add: ex_session_def)
  have r: "''ready'' = ''ready'' \<or> ''ready'' = ''created''" by simp
  from get_stream_status_returns [OF ne ex_get_computer
      ex_items(2) [of "''ready''" "(''inactive'', ''noData'')" 204]]
  have a: "get_stream_status (ex_services ''ready'' (''inactive'', ''noData'') 204) ex_session
     = (Inr (''inactive'', ''noData''), [YT_liveStreams_list (PyStr ''kid-A'')])"
    by (simp add: ex_computer_def)
  from start_streaming_ready [OF ex_streamed ex_get_computer ex_broadcast_id
      ex_items(1) [of "''ready''" "(''inactive'', ''noData'')" 204] r
      ex_items(2) [of "''ready''" "(''inactive'', ''noData'')" 204]]
  have b: "start_streaming (ex_services ''ready'' (''inactive'', ''noData'') 204) ex_session =
       (Inr (),
        [YT_liveBroadcasts_list ''abc'',
         Print (msg_attaching (PyStr ''key-A'') ''abc''),
         YT_liveBroadcasts_bind ''abc'' (Some (PyStr ''kid-A'')),
         Zoom_patch_livestream_status ''987'' ''start'',
         Print ''Sleeping 10s for Zoom live stream to begin'',
         Sleep 10,
         YT_liveStreams_list (PyStr ''kid-A''),
         Print (msg_not_active (PyStr ''A'') (PyStr ''key-A'') ''abc'' ''inactive''),
         Sleep 10,
         Print (msg_unhealthy (PyStr ''A'') (PyStr ''key-A'') ''noData''),
         YT_liveBroadcasts_transition ''live'' ''abc''])"
    by (simp add: ex_cells py_str_def ex_computer_def)
  from start_streaming_ready [OF ex_streamed ex_get_computer ex_broadcast_id
      ex_items(1) [of "''ready''" "(''active'', ''bad'')" 204] r
      ex_items(2) [of "''ready''" "(''active'', ''bad'')" 204]]
  have c: "start_streaming (ex_services ''ready'' (''active'', ''bad'') 204) ex_session =
       (Inr (),
        [YT_liveBroadcasts_list ''abc'',
         Print (msg_attaching (PyStr ''key-A'') ''abc''),
         YT_liveBroadcasts_bind ''abc'' (Some (PyStr ''kid-A'')),
         Zoom_patch_livestream_status ''987'' ''start'',
         Print ''Sleeping 10s for Zoom live stream to begin'',
         Sleep 10,
         YT_liveStreams_list (PyStr ''kid-A''),
         Print (msg_unhealthy (PyStr ''A'') (PyStr ''key-A'') ''bad''),
         YT_liveBroadcasts_transition ''live'' ''abc''])"
    by (simp add: ex_cells py_str_def ex_computer_def)
  from a b c show ?thesis by (intro conjI)
qed

text \<open>
  Claim C1, amended. For a streamed session with broadcast status \<open>ready\<close> or
  \<open>created\<close>, if the one poll after binding the stream key and signalling Zoom reports
  the stream \<open>active\<close> with a health other than \<open>good\<close>, \<open>start_streaming\<close> prints a
  warning and still transitions the broadcast to \<open>live\<close>; it returns normally and
  undoes nothing (no unbind, no Zoom stop).
\<close>

theorem start_streaming_unhealthy_warns:
  assumes "streamed s"
    and "get_computer (d_database (s_day s)) (entry (s_day s) (hd (timeslots s)) ''Computer'') = Inr ci"
    and "youtube_broadcast_id s = Inr bid"
    and "yt_broadcast_items sv bid = st # others"
    and "st = ''ready'' \<or> st = ''created''"
    and "yt_stream_items sv (c_Youtube_Stream_Key_ID ci) = (''active'', stream_health) # others'"
    and "stream_health \<noteq> ''good''"
  shows "start_streaming sv s =
     (Inr (),
      [YT_liveBroadcasts_list bid,
       Print (msg_attaching (c_Youtube_Stream_Key ci) bid),
       YT_liveBroadcasts_bind bid (Some (c_Youtube_Stream_Key_ID ci)),
       Zoom_patch_livestream_status
         (py_str (entry (s_day s) (hd (timeslots s)) ''Zoom Meeting ID'')) ''start'',
       Print ''Sleeping 10s for Zoom live stream to begin'',
       Sleep 10,
       YT_liveStreams_list (c_Youtube_Stream_Key_ID ci),
       Print (msg_unhealthy (entry (s_day s) (hd (timeslots s)) ''Computer'')
                 (c_Youtube_Stream_Key ci) stream_health),
       YT_liveBroadcasts_transition ''live'' bid])"
  using start_streaming_ready [OF assms(1-6)] assms(7) by simp

theorem start_streaming_unhealthy_warns_witness:
  "streamed ex_session
   \<and> yt_stream_items (ex_services ''created'' (''active'', ''bad'') 204) (PyStr ''kid-A'')
       = [(''active'', ''bad'')]
   \<and> start_streaming (ex_services ''created'' (''active'', ''bad'') 204) ex_session =
       (Inr (),
        [YT_liveBroadcasts_list ''abc'',
         Print (msg_attaching (PyStr ''key-A'') ''abc''),
         YT_liveBroadcasts_bind ''abc'' (Some (PyStr ''kid-A'')),
         Zoom_patch_livestream_status ''987'' ''start'',
         Print ''Sleeping 10s for Zoom live stream to begin'',
         Sleep 10,
         YT_liveStreams_list (PyStr ''kid-A''),
         Print (msg_unhealthy (PyStr ''A'') (PyStr ''key-A'') ''bad''),
         YT_liveBroadcasts_transition ''live'' ''abc''])"
proof -
  have r: "''created'' = ''ready'' \<or> ''created'' = ''created''" by simp
  have h: "''bad'' \<noteq> ''good''" by simp
  have i: "yt_stream_items (ex_services ''created'' (''active'', ''bad'') 204) (PyStr ''kid-A'')
       = [(''active'', ''bad'')]"
    by (simp add: ex_services_def)
  from start_streaming_unhealthy_warns [OF ex_streamed ex_get_computer ex_broadcast_id
      ex_items(1) [of "''created''" "(''active'', ''bad'')" 204] r
      ex_items(2) [of "''created''" "(''active'', ''bad'')" 204] h]
  have "start_streaming (ex_services ''created'' (''active'', ''bad'') 204) ex_session =
       (Inr (),
        [YT_liveBroadcasts_list ''abc'',
         Print (msg_attaching (PyStr ''key-A'') ''abc''),
         YT_liveBroadcasts_bind ''abc'' (Some (PyStr ''kid-A'')),
         Zoom_patch_livestream_status ''987'' ''start'',
         Print ''Sleeping 10s for Zoom live stream to begin'',
         Sleep 10,
         YT_liveStreams_list (PyStr ''kid-A''),
         Print (msg_unhealthy (PyStr ''A'') (PyStr ''key-A'') ''bad''),
         YT_liveBroadcasts_transition ''live'' ''abc''])"
    by (simp add: ex_cells py_str_def ex_computer_def)
  with ex_streamed i show ?thesis by (intro conjI)
qed

text \<open>
  Claim C3. For a streamed session whose broadcast id parses, when
  \<open>get_broadcast_status\<close> returns \<open>st\<close>: if \<open>st\<close> is \<open>complete\<close>, \<open>stop_streaming\<close>
  prints and returns with no further call; if \<open>st\<close> is \<open>live\<close>, it transitions the
  broadcast to \<open>complete\<close>, binds it to no stream, makes the video embeddable and tells
  Zoom to stop, in that order; for any other \<open>st\<close> it prints and returns with none of
  these calls.
\<close>

theorem stop_streaming_by_broadcast_status:
  assumes "streamed s"
    and "youtube_broadcast_id s = Inr bid"
    and "yt_broadcast_items sv bid = st # others"
  shows "(st = ''complete'' \<longrightarrow>
           stop_streaming sv s =
             (Inr (), [YT_liveBroadcasts_list bid, Print (msg_already_complete bid)]))
    \<and> (st = ''live'' \<longrightarrow>
           stop_streaming sv s =
             (Inr (),
              [YT_liveBroadcasts_list bid,
               YT_liveBroadcasts_transition ''complete'' bid,
               YT_liveBroadcasts_bind bid None,
               YT_videos_update_embeddable bid,
               Zoom_patch_livestream_status
                 (py_str (entry (s_day s) (hd (timeslots s)) ''Zoom Meeting ID'')) ''stop'']))
    \<and> (st \<noteq> ''complete'' \<and> st \<noteq> ''live'' \<longrightarrow>
           stop_streaming sv s =
             (Inr (), [YT_liveBroadcasts_list bid, Print (msg_not_live bid st)]))"
proof -
  from assms(1) have ne: "timeslots s \<noteq> []" by (simp add: streamed_def)
  note gb = get_broadcast_status_returns [OF assms(2,3)]
  show ?thesis
    using assms(1,2)
    by (simp add: stop_streaming_def streamed_def timeslot_entry_first [OF ne] gb io_defs
        get_zoom_meeting_id_def)
qed

theorem stop_streaming_by_broadcast_status_witness:
  "streamed ex_session
   \<and> stop_streaming (ex_services ''complete'' (''active'', ''good'') 204) ex_session =
       (Inr (), [YT_liveBroadcasts_list ''abc'', Print (msg_already_complete ''abc'')])
   \<and> stop_streaming (ex_services ''live'' (''active'', ''good'') 204) ex_session =
       (Inr (),
        [YT_liveBroadcasts_list ''abc'',
         YT_liveBroadcasts_transition ''complete'' ''abc'',
         YT_liveBroadcasts_bind ''abc'' None,
         YT_videos_update_embeddable ''abc'',
         Zoom_patch_livestream_status ''987'' ''stop''])
   \<and> stop_streaming (ex_services ''ready'' (''active'', ''good'') 204) ex_session =
       (Inr (), [YT_liveBroadcasts_list ''abc'', Print (msg_not_live ''abc'' ''ready'')])"
proof -
  note t = stop_streaming_by_broadcast_status [OF ex_streamed ex_broadcast_id ex_items(1)]
  have a: "stop_streaming (ex_services ''complete'' (''active'', ''good'') 204) ex_session =
       (Inr (), [YT_liveBroadcasts_list ''abc'', Print (msg_already_complete ''abc'')])"
    using t [of "''complete''" "(''active'', ''good'')" 204] by simp
  have b: "stop_streaming (ex_services ''live'' (''active'', ''good'') 204) ex_session =
       (Inr (),
        [YT_liveBroadcasts_list ''abc'',
         YT_liveBroadcasts_transition ''complete'' ''abc'',
         YT_liveBroadcasts_bind ''abc'' None,
         YT_videos_update_embeddable ''abc'',
         Zoom_patch_livestream_status ''987'' ''stop''])"
    using t [of "''live''" "(''active'', ''good'')" 204] by (simp add: ex_cells py_str_def)
  have c: "stop_streaming (ex_services ''ready'' (''active'', ''good'') 204) ex_session =
       (Inr (), [YT_liveBroadcasts_list ''abc'', Print (msg_not_live ''abc'' ''ready'')])"
    using t [of "''ready''" "(''active'', ''good'')" 204] by simp
  from ex_streamed a b c show ?thesis by (intro conjI)
qed

section \<open>Session.schedule_zoom\<close>
















section \<open>The registrant sync\<close>




















end
